theory Spec2Isabelle
  imports Main "HOL-Library.Word"
begin

section \<open>BitNet CUDA kernel binding (ggml-bitnet-cuda.cpp)\<close>

text \<open>
  The translation unit keeps four file-scope variables (module handle, kernel function
  pointer, two flags) and talks to the operating system's dynamic loader. The model
  threads a record of the four variables through every function, takes the loader as
  a parameter of each call, and logs every effect the functions have on the outside
  world (loader calls, diagnostics, kernel invocations) in a trace.
\<close>

subsection \<open>Pointers, platform macros\<close>

type_synonym ptr = nat

abbreviation NULL :: ptr where
  "NULL \<equiv> 0"

text \<open>The two arms of \<^verbatim>\<open>#ifdef _WIN32\<close>.\<close>

datatype platform = Win32 | Posix

fun BITNET_LIB_NAME :: "platform \<Rightarrow> string" where
  "BITNET_LIB_NAME Win32 = ''libbitnet.dll''"
| "BITNET_LIB_NAME Posix = ''libbitnet.so''"

text \<open>The explicit path of the second load attempt (string-literal concatenation).\<close>

fun explicit_path :: "platform \<Rightarrow> string" where
  "explicit_path Win32 = ''libs/windows/bitnet-kernel/'' @ BITNET_LIB_NAME Win32"
| "explicit_path Posix = ''./libs/linux/bitnet-kernel/'' @ BITNET_LIB_NAME Posix"

definition kernel_symbol :: string where
  "kernel_symbol = ''bitlinear_int8xint2''"

subsection \<open>The kernel's signature and the loader\<close>

text \<open>
  \<^verbatim>\<open>bitlinear_int8xint2_func\<close>: five buffer pointers, three C ints (32-bit words, read as signed), a stream handle,
  in this order.
\<close>

type_synonym kernel_args =
  "ptr \<times> ptr \<times> ptr \<times> ptr \<times> ptr \<times> 32 word \<times> 32 word \<times> 32 word \<times> ptr"

type_synonym memory = "nat \<Rightarrow> 8 word"

text \<open>
  What the process sees of its surroundings during one call: the result of
  \<^verbatim>\<open>LOAD_LIBRARY\<close> for a path, of \<^verbatim>\<open>GET_PROC_ADDRESS\<close> for a handle and a name
  (\<open>NULL\<close> on failure for both), and what the code at a function address does to
  memory when called with nine arguments. The kernel itself is opaque external code.
\<close>

record loader =
  load_library :: "string \<Rightarrow> ptr"
  get_proc_address :: "ptr \<Rightarrow> string \<Rightarrow> ptr"
  kernel_code :: "ptr \<Rightarrow> kernel_args \<Rightarrow> memory \<Rightarrow> memory"

text \<open>The four \<^verbatim>\<open>fprintf(stderr, ...)\<close> diagnostics, with their \<^verbatim>\<open>%s\<close> argument.\<close>

datatype diagnostic =
    Warn_could_not_load string
  | Warn_fall_back_to_cpu
  | Error_function_missing string
  | Info_loaded string

datatype event =
    Load string
  | Get_proc ptr string
  | Close ptr
  | Print diagnostic
  | Call ptr kernel_args

subsection \<open>Global state\<close>

record bitnet_state =
  g_bitnet_lib :: ptr
  g_bitlinear_kernel :: ptr
  g_bitnet_initialized :: bool
  g_bitnet_available :: bool
  mem :: memory
  trace :: "event list"

text \<open>The static initialisers, for any content of the caller's memory.\<close>

definition initial_state :: "memory \<Rightarrow> bitnet_state" where
  "initial_state m =
     \<lparr>g_bitnet_lib = NULL, g_bitlinear_kernel = NULL,
      g_bitnet_initialized = False, g_bitnet_available = False,
      mem = m, trace = []\<rparr>"

definition emit :: "event \<Rightarrow> bitnet_state \<Rightarrow> bitnet_state" where
  "emit e s = s\<lparr>trace := trace s @ [e]\<rparr>"

subsection \<open>Initialization and cleanup\<close>

definition ggml_bitnet_cuda_init ::
    "platform \<Rightarrow> loader \<Rightarrow> bitnet_state \<Rightarrow> bool \<times> bitnet_state" where
  "ggml_bitnet_cuda_init pf env s =
     (if g_bitnet_initialized s then (g_bitnet_available s, s)
      else
        let s1 = s\<lparr>g_bitnet_initialized := True\<rparr>;
            s2 = (emit (Load (BITNET_LIB_NAME pf)) s1)
                   \<lparr>g_bitnet_lib := load_library env (BITNET_LIB_NAME pf)\<rparr>;
            s3 = (if g_bitnet_lib s2 = NULL
                  then (emit (Load (explicit_path pf)) s2)
                         \<lparr>g_bitnet_lib := load_library env (explicit_path pf)\<rparr>
                  else s2)
        in if g_bitnet_lib s3 = NULL
           then (False,
                 emit (Print Warn_fall_back_to_cpu)
                   (emit (Print (Warn_could_not_load (BITNET_LIB_NAME pf))) s3))
           else
             let s4 = (emit (Get_proc (g_bitnet_lib s3) kernel_symbol) s3)
                        \<lparr>g_bitlinear_kernel :=
                           get_proc_address env (g_bitnet_lib s3) kernel_symbol\<rparr>
             in if g_bitlinear_kernel s4 = NULL
                then (False,
                      (emit (Close (g_bitnet_lib s4))
                         (emit (Print (Error_function_missing (BITNET_LIB_NAME pf))) s4))
                        \<lparr>g_bitnet_lib := NULL\<rparr>)
                else (True,
                      emit (Print (Info_loaded (BITNET_LIB_NAME pf)))
                        (s4\<lparr>g_bitnet_available := True\<rparr>)))"

definition ggml_bitnet_cuda_free :: "bitnet_state \<Rightarrow> bitnet_state" where
  "ggml_bitnet_cuda_free s =
     (let s1 = (if g_bitnet_lib s \<noteq> NULL
                then (emit (Close (g_bitnet_lib s)) s)
                       \<lparr>g_bitnet_lib := NULL, g_bitlinear_kernel := NULL\<rparr>
                else s)
      in s1\<lparr>g_bitnet_initialized := False, g_bitnet_available := False\<rparr>)"

definition ggml_bitnet_cuda_is_available ::
    "platform \<Rightarrow> loader \<Rightarrow> bitnet_state \<Rightarrow> bool \<times> bitnet_state" where
  "ggml_bitnet_cuda_is_available pf env s =
     (let s1 = (if \<not> g_bitnet_initialized s
                then snd (ggml_bitnet_cuda_init pf env s) else s)
      in (g_bitnet_available s1, s1))"

subsection \<open>Kernel invocation\<close>

text \<open>
  A call through a null function pointer has no defined behaviour in C; the model makes
  it a fault, so that its absence is a statement about the code.
\<close>

datatype fault = Null_function_call

definition ggml_bitnet_cuda_compute ::
    "platform \<Rightarrow> loader \<Rightarrow> ptr \<Rightarrow> ptr \<Rightarrow> ptr \<Rightarrow> ptr \<Rightarrow> ptr \<Rightarrow>
     32 word \<Rightarrow> 32 word \<Rightarrow> 32 word \<Rightarrow> ptr \<Rightarrow>
     bitnet_state \<Rightarrow> fault + bool \<times> bitnet_state" where
  "ggml_bitnet_cuda_compute pf env input weight output scale weight_scale M N K stream s =
     (case ggml_bitnet_cuda_is_available pf env s of (avail, s1) \<Rightarrow>
        if \<not> avail then Inr (False, s1)
        else if g_bitlinear_kernel s1 = NULL then Inl Null_function_call
        else
          let args = (input, weight, output, scale, weight_scale, M, N, K, stream)
          in Inr (True,
                  (emit (Call (g_bitlinear_kernel s1) args) s1)
                    \<lparr>mem := kernel_code env (g_bitlinear_kernel s1) args (mem s1)\<rparr>))"

subsection \<open>Detection helpers\<close>

text \<open>
  The tensor is only ever a pointer here: the function compares it with \<open>NULL\<close> and
  reads nothing through it.
\<close>

definition ggml_is_bitnet_model :: "ptr \<Rightarrow> bool" where
  "ggml_is_bitnet_model tensor = (if tensor = NULL then False else False)"

definition ggml_should_use_bitnet_cuda ::
    "platform \<Rightarrow> loader \<Rightarrow> ptr \<Rightarrow> bitnet_state \<Rightarrow> bool \<times> bitnet_state" where
  "ggml_should_use_bitnet_cuda pf env tensor s =
     (case ggml_bitnet_cuda_is_available pf env s of (avail, s1) \<Rightarrow>
        if \<not> avail then (False, s1)
        else if \<not> ggml_is_bitnet_model tensor then (False, s1)
        else (True, s1))"

subsection \<open>Calls of the public interface and their sequences\<close>

datatype api_call =
    Init
  | Free
  | Is_available
  | Compute ptr ptr ptr ptr ptr "32 word" "32 word" "32 word" ptr
  | Should_use ptr

datatype ret = Ret_bool bool | Ret_void

fun exec :: "platform \<Rightarrow> loader \<Rightarrow> api_call \<Rightarrow> bitnet_state \<Rightarrow> fault + ret \<times> bitnet_state" where
  "exec pf env Init s =
     (case ggml_bitnet_cuda_init pf env s of (b, s') \<Rightarrow> Inr (Ret_bool b, s'))"
| "exec pf env Free s = Inr (Ret_void, ggml_bitnet_cuda_free s)"
| "exec pf env Is_available s =
     (case ggml_bitnet_cuda_is_available pf env s of (b, s') \<Rightarrow> Inr (Ret_bool b, s'))"
| "exec pf env (Compute i w out sc ws M N K st) s =
     (case ggml_bitnet_cuda_compute pf env i w out sc ws M N K st s of
        Inl f \<Rightarrow> Inl f
      | Inr (b, s') \<Rightarrow> Inr (Ret_bool b, s'))"
| "exec pf env (Should_use t) s =
     (case ggml_should_use_bitnet_cuda pf env t s of (b, s') \<Rightarrow> Inr (Ret_bool b, s'))"

text \<open>
  A sequence of calls, each under the loader it finds at that moment; the results are
  returned in call order. A fault ends the run.
\<close>

fun run :: "platform \<Rightarrow> (loader \<times> api_call) list \<Rightarrow> bitnet_state \<Rightarrow>
            fault + ret list \<times> bitnet_state" where
  "run pf [] s = Inr ([], s)"
| "run pf ((env, c) # cs) s =
     (case exec pf env c s of
        Inl f \<Rightarrow> Inl f
      | Inr (r, s1) \<Rightarrow>
          (case run pf cs s1 of
             Inl f \<Rightarrow> Inl f
           | Inr (rs, s2) \<Rightarrow> Inr (r # rs, s2)))"

text \<open>
  The states the process can be in: the static initialisers, then any call under any
  loader; between calls the host may write its own memory.
\<close>

inductive reachable :: "platform \<Rightarrow> bitnet_state \<Rightarrow> bool" for pf :: platform where
  start: "reachable pf (initial_state m)"
| call: "reachable pf s \<Longrightarrow> exec pf env c s = Inr (r, s') \<Longrightarrow> reachable pf s'"
| host_write: "reachable pf s \<Longrightarrow> reachable pf (s\<lparr>mem := m\<rparr>)"

subsection \<open>Observations on the trace\<close>

text \<open>
  Every execution of the load logic starts with one attempt on the plain library name,
  so the number of these attempts counts the executions.
\<close>

definition probe_runs :: "platform \<Rightarrow> event list \<Rightarrow> nat" where
  "probe_runs pf t = length (filter (\<lambda>e. e = Load (BITNET_LIB_NAME pf)) t)"

fun is_call :: "event \<Rightarrow> bool" where
  "is_call (Call k a) = True"
| "is_call e = False"

definition kernel_calls :: "event list \<Rightarrow> event list" where
  "kernel_calls t = filter is_call t"

fun load_attempts :: "event list \<Rightarrow> string list" where
  "load_attempts [] = []"
| "load_attempts (Load p # t) = p # load_attempts t"
| "load_attempts (e # t) = load_attempts t"

text \<open>
  The candidate locations as the specification lists them, and the first of them at
  which a module loads.
\<close>

definition candidate_paths :: "platform \<Rightarrow> string list" where
  "candidate_paths pf = [BITNET_LIB_NAME pf, explicit_path pf]"

definition first_loadable :: "platform \<Rightarrow> loader \<Rightarrow> string option" where
  "first_loadable pf env = find (\<lambda>p. load_library env p \<noteq> NULL) (candidate_paths pf)"

text \<open>
  The binding invariant of the data model, and the stronger fact that makes it
  inductive: handle and pointer are null together, the handle is non-null exactly when
  the availability flag is set, and the flag is set only in an initialized state.
\<close>

definition binding_inv :: "bitnet_state \<Rightarrow> bool" where
  "binding_inv s \<longleftrightarrow>
     (g_bitlinear_kernel s \<noteq> NULL \<longrightarrow> g_bitnet_lib s \<noteq> NULL) \<and>
     (g_bitnet_available s \<longrightarrow> g_bitnet_lib s \<noteq> NULL \<and> g_bitlinear_kernel s \<noteq> NULL)"

definition state_inv :: "bitnet_state \<Rightarrow> bool" where
  "state_inv s \<longleftrightarrow>
     (g_bitnet_lib s = NULL \<longleftrightarrow> g_bitlinear_kernel s = NULL) \<and>
     (g_bitnet_available s \<longleftrightarrow> g_bitnet_lib s \<noteq> NULL) \<and>
     (g_bitnet_available s \<longrightarrow> g_bitnet_initialized s)"

subsection \<open>Test doubles for the loader\<close>

text \<open>
  Three surroundings on a POSIX build: no module anywhere; a module under the plain
  name that exports the kernel, whose code stores one byte at the output pointer; a
  module under the plain name that lacks the symbol.
\<close>

definition absent_loader :: loader where
  "absent_loader =
     \<lparr>load_library = (\<lambda>p. NULL),
      get_proc_address = (\<lambda>h n. NULL),
      kernel_code = (\<lambda>k a m. m)\<rparr>"

definition stub_loader :: loader where
  "stub_loader =
     \<lparr>load_library = (\<lambda>p. if p = ''libbitnet.so'' then 7 else NULL),
      get_proc_address =
        (\<lambda>h n. if h = 7 \<and> n = ''bitlinear_int8xint2'' then 9 else NULL),
      kernel_code = (\<lambda>k (i, w, out, sc, ws, M, N, K, st) m. m(out := 1))\<rparr>"

definition symbolless_loader :: loader where
  "symbolless_loader =
     \<lparr>load_library = (\<lambda>p. if p = ''libbitnet.so'' then 7 else NULL),
      get_proc_address = (\<lambda>h n. NULL),
      kernel_code = (\<lambda>k a m. m)\<rparr>"

definition zero_mem :: memory where
  "zero_mem = (\<lambda>a. 0)"

section \<open>Properties\<close>

subsection \<open>The invariant\<close>

lemma state_inv_initial: "state_inv (initial_state m)"
  by (simp add: state_inv_def initial_state_def)

lemma state_inv_init: "state_inv s \<Longrightarrow> state_inv (snd (ggml_bitnet_cuda_init pf env s))"
  by (auto simp add: state_inv_def ggml_bitnet_cuda_init_def emit_def Let_def)

lemma state_inv_free: "state_inv s \<Longrightarrow> state_inv (ggml_bitnet_cuda_free s)"
  by (auto simp add: state_inv_def ggml_bitnet_cuda_free_def emit_def Let_def)

lemma state_inv_is_available:
  "state_inv s \<Longrightarrow> state_inv (snd (ggml_bitnet_cuda_is_available pf env s))"
  by (simp add: ggml_bitnet_cuda_is_available_def Let_def state_inv_init)

lemma is_available_result:
  "fst (ggml_bitnet_cuda_is_available pf env s) =
     g_bitnet_available (snd (ggml_bitnet_cuda_is_available pf env s))"
  by (simp add: ggml_bitnet_cuda_is_available_def Let_def)

lemma available_kernel_bound:
  assumes "state_inv s" and "fst (ggml_bitnet_cuda_is_available pf env s)"
  shows "g_bitlinear_kernel (snd (ggml_bitnet_cuda_is_available pf env s)) \<noteq> NULL"
proof -
  let ?s1 = "snd (ggml_bitnet_cuda_is_available pf env s)"
  have "state_inv ?s1" using assms(1) by (rule state_inv_is_available)
  moreover have "g_bitnet_available ?s1" using assms(2) is_available_result by simp
  ultimately show ?thesis by (auto simp add: state_inv_def)
qed

lemma compute_cases:
  assumes "state_inv s"
  shows "ggml_bitnet_cuda_compute pf env i w out sc ws M N K st s =
     (let s1 = snd (ggml_bitnet_cuda_is_available pf env s)
      in if \<not> fst (ggml_bitnet_cuda_is_available pf env s) then Inr (False, s1)
         else Inr (True,
                (emit (Call (g_bitlinear_kernel s1) (i, w, out, sc, ws, M, N, K, st)) s1)
                  \<lparr>mem := kernel_code env (g_bitlinear_kernel s1)
                            (i, w, out, sc, ws, M, N, K, st) (mem s1)\<rparr>))"
proof (cases "ggml_bitnet_cuda_is_available pf env s")
  case (Pair avail s1)
  then show ?thesis
    using available_kernel_bound [OF assms, of pf env]
    by (auto simp add: ggml_bitnet_cuda_compute_def Let_def)
qed

lemma state_inv_exec:
  assumes "state_inv s"
  shows "\<exists>r s'. exec pf env c s = Inr (r, s') \<and> state_inv s'"
proof (cases c)
  case Init
  then show ?thesis
    using state_inv_init [OF assms, of pf env]
    by (cases "ggml_bitnet_cuda_init pf env s") simp
next
  case Free
  then show ?thesis using state_inv_free [OF assms] by simp
next
  case Is_available
  then show ?thesis
    using state_inv_is_available [OF assms, of pf env]
    by (cases "ggml_bitnet_cuda_is_available pf env s") simp
next
  case (Compute i w out sc ws M N K st)
  have "state_inv (snd (ggml_bitnet_cuda_is_available pf env s))"
    using assms by (rule state_inv_is_available)
  then show ?thesis
    using Compute by (auto simp add: compute_cases [OF assms] Let_def emit_def state_inv_def)
next
  case (Should_use t)
  then show ?thesis
    using state_inv_is_available [OF assms, of pf env]
    by (cases "ggml_bitnet_cuda_is_available pf env s")
       (simp add: ggml_should_use_bitnet_cuda_def)
qed

lemma reachable_state_inv: "reachable pf s \<Longrightarrow> state_inv s"
proof (induction rule: reachable.induct)
  case (start m)
  show ?case by (rule state_inv_initial)
next
  case (call s env c r s')
  then show ?case using state_inv_exec [of s pf env c] by auto
next
  case (host_write s m)
  then show ?case by (auto simp add: state_inv_def)
qed

lemma state_inv_binding: "state_inv s \<Longrightarrow> binding_inv s"
  by (auto simp add: state_inv_def binding_inv_def)

subsection \<open>What initialization leaves alone\<close>

lemma init_mem: "mem (snd (ggml_bitnet_cuda_init pf env s)) = mem s"
  by (simp add: ggml_bitnet_cuda_init_def emit_def Let_def)

lemma init_kernel_calls:
  "kernel_calls (trace (snd (ggml_bitnet_cuda_init pf env s))) = kernel_calls (trace s)"
  by (simp add: ggml_bitnet_cuda_init_def emit_def Let_def kernel_calls_def)

lemma is_available_mem: "mem (snd (ggml_bitnet_cuda_is_available pf env s)) = mem s"
  by (simp add: ggml_bitnet_cuda_is_available_def Let_def init_mem)

lemma is_available_kernel_calls:
  "kernel_calls (trace (snd (ggml_bitnet_cuda_is_available pf env s))) =
     kernel_calls (trace s)"
  by (simp add: ggml_bitnet_cuda_is_available_def Let_def init_kernel_calls)

subsection \<open>The dispatch gate\<close>

text \<open>
  C1. In every reachable state, an availability check that passes leaves a non-null
  kernel pointer behind, so \<open>ggml_bitnet_cuda_compute\<close> never calls through a null
  pointer; and when the check fails, \<open>ggml_bitnet_cuda_compute\<close> returns false and the
  trace gains no kernel call.
\<close>

theorem compute_never_calls_unbound_pointer:
  assumes "reachable pf s"
  shows "(fst (ggml_bitnet_cuda_is_available pf env s) \<longrightarrow>
            g_bitlinear_kernel (snd (ggml_bitnet_cuda_is_available pf env s)) \<noteq> NULL) \<and>
         ggml_bitnet_cuda_compute pf env i w out sc ws M N K st s \<noteq> Inl Null_function_call \<and>
         (\<not> fst (ggml_bitnet_cuda_is_available pf env s) \<longrightarrow>
            (\<exists>s'. ggml_bitnet_cuda_compute pf env i w out sc ws M N K st s = Inr (False, s') \<and>
                  kernel_calls (trace s') = kernel_calls (trace s)))"
proof -
  have inv: "state_inv s" using assms by (rule reachable_state_inv)
  have bound: "fst (ggml_bitnet_cuda_is_available pf env s) \<longrightarrow>
        g_bitlinear_kernel (snd (ggml_bitnet_cuda_is_available pf env s)) \<noteq> NULL"
    using available_kernel_bound [OF inv] by blast
  have no_fault: "ggml_bitnet_cuda_compute pf env i w out sc ws M N K st s \<noteq> Inl Null_function_call"
    by (simp add: compute_cases [OF inv] Let_def)
  have refused: "\<not> fst (ggml_bitnet_cuda_is_available pf env s) \<longrightarrow>
        (\<exists>s'. ggml_bitnet_cuda_compute pf env i w out sc ws M N K st s = Inr (False, s') \<and>
              kernel_calls (trace s') = kernel_calls (trace s))"
    by (simp add: compute_cases [OF inv] Let_def is_available_kernel_calls)
  from bound no_fault refused show ?thesis by blast
qed

theorem compute_never_calls_unbound_pointer_witness:
  "reachable Posix (initial_state zero_mem) \<and>
   ggml_bitnet_cuda_compute Posix stub_loader 100 200 300 400 500 2 4 8 0
     (initial_state zero_mem) \<noteq> Inl Null_function_call \<and>
   fst (ggml_bitnet_cuda_is_available Posix stub_loader (initial_state zero_mem))"
proof -
  have r: "reachable Posix (initial_state zero_mem)" by (rule reachable.start)
  have a: "fst (ggml_bitnet_cuda_is_available Posix stub_loader (initial_state zero_mem))"
    by (simp add: ggml_bitnet_cuda_is_available_def ggml_bitnet_cuda_init_def
        initial_state_def stub_loader_def emit_def kernel_symbol_def Let_def)
  show ?thesis
    using compute_never_calls_unbound_pointer
            [OF r, of stub_loader 100 200 300 400 500 2 4 8 0] r a
    by blast
qed

text \<open>
  C5. When the availability check passes in a reachable state,
  \<open>ggml_bitnet_cuda_compute\<close> returns true, and all it does beyond the check is one
  call of the bound function with the nine arguments as given, in the order given:
  whatever their values, memory becomes what the kernel makes of it and the trace gains
  exactly that call.
\<close>

theorem compute_pass_through:
  assumes "reachable pf s"
      and "fst (ggml_bitnet_cuda_is_available pf env s)"
  shows "ggml_bitnet_cuda_compute pf env input weight output scale weight_scale M N K stream s =
           Inr (True,
             (let s1 = snd (ggml_bitnet_cuda_is_available pf env s);
                  k = g_bitlinear_kernel s1;
                  args = (input, weight, output, scale, weight_scale, M, N, K, stream)
              in s1\<lparr>mem := kernel_code env k args (mem s1),
                    trace := trace s1 @ [Call k args]\<rparr>)) \<and>
         g_bitlinear_kernel (snd (ggml_bitnet_cuda_is_available pf env s)) \<noteq> NULL"
proof -
  have inv: "state_inv s" using assms(1) by (rule reachable_state_inv)
  have "g_bitlinear_kernel (snd (ggml_bitnet_cuda_is_available pf env s)) \<noteq> NULL"
    using available_kernel_bound [OF inv assms(2)] .
  moreover have "ggml_bitnet_cuda_compute pf env input weight output scale weight_scale M N K stream s =
           Inr (True,
             (let s1 = snd (ggml_bitnet_cuda_is_available pf env s);
                  k = g_bitlinear_kernel s1;
                  args = (input, weight, output, scale, weight_scale, M, N, K, stream)
              in s1\<lparr>mem := kernel_code env k args (mem s1),
                    trace := trace s1 @ [Call k args]\<rparr>))"
    using assms(2) by (simp add: compute_cases [OF inv] Let_def emit_def)
  ultimately show ?thesis by blast
qed

theorem compute_pass_through_witness:
  "reachable Posix (initial_state zero_mem) \<and>
   fst (ggml_bitnet_cuda_is_available Posix stub_loader (initial_state zero_mem)) \<and>
   (\<exists>s'. ggml_bitnet_cuda_compute Posix stub_loader 100 200 300 400 500 2 4 8 0
            (initial_state zero_mem) = Inr (True, s') \<and>
         last (trace s') = Call 9 (100, 200, 300, 400, 500, 2, 4, 8, 0) \<and>
         mem s' 300 = 1 \<and> mem s' 100 = 0)"
proof -
  have r: "reachable Posix (initial_state zero_mem)" by (rule reachable.start)
  have a: "fst (ggml_bitnet_cuda_is_available Posix stub_loader (initial_state zero_mem))"
    by (simp add: ggml_bitnet_cuda_is_available_def ggml_bitnet_cuda_init_def
        initial_state_def stub_loader_def emit_def kernel_symbol_def Let_def)
  have c: "\<exists>s'. ggml_bitnet_cuda_compute Posix stub_loader 100 200 300 400 500 2 4 8 0
            (initial_state zero_mem) = Inr (True, s') \<and>
         last (trace s') = Call 9 (100, 200, 300, 400, 500, 2, 4, 8, 0) \<and>
         mem s' 300 = 1 \<and> mem s' 100 = 0"
    using compute_pass_through [OF r a, of 100 200 300 400 500 2 4 8 0]
    by (simp add: ggml_bitnet_cuda_is_available_def ggml_bitnet_cuda_init_def
        initial_state_def stub_loader_def zero_mem_def emit_def kernel_symbol_def Let_def)
  from r a c show ?thesis by blast
qed

subsection \<open>The detection helpers\<close>

text \<open>
  C8. \<open>ggml_should_use_bitnet_cuda\<close> returns the conjunction of the availability check
  and of \<open>ggml_is_bitnet_model\<close>; the classifier returns false for every tensor pointer,
  so eligibility is false for every tensor, every loader and every state, also when
  the module is available.
\<close>

theorem eligibility_never_defaults_to_true:
  "fst (ggml_should_use_bitnet_cuda pf env tensor s) =
     (fst (ggml_bitnet_cuda_is_available pf env s) \<and> ggml_is_bitnet_model tensor) \<and>
   ggml_is_bitnet_model tensor = False \<and>
   fst (ggml_should_use_bitnet_cuda pf env tensor s) = False"
  by (cases "ggml_bitnet_cuda_is_available pf env s")
     (simp add: ggml_should_use_bitnet_cuda_def ggml_is_bitnet_model_def)

text \<open>
  C10. For the null tensor pointer \<open>ggml_is_bitnet_model\<close> returns false, and so does
  \<open>ggml_should_use_bitnet_cuda\<close>, in every state and under every loader.
\<close>

theorem null_descriptor_not_eligible:
  "ggml_is_bitnet_model NULL = False \<and>
   fst (ggml_should_use_bitnet_cuda pf env NULL s) = False"
  by (cases "ggml_bitnet_cuda_is_available pf env s")
     (simp add: ggml_should_use_bitnet_cuda_def ggml_is_bitnet_model_def)

subsection \<open>What one execution of the load logic does\<close>

lemma explicit_path_not_plain: "explicit_path pf \<noteq> BITNET_LIB_NAME pf"
  by (cases pf) simp_all

lemma probe_runs_snoc:
  "probe_runs pf (t @ [e]) = probe_runs pf t + (if e = Load (BITNET_LIB_NAME pf) then 1 else 0)"
  by (simp add: probe_runs_def)

lemma load_attempts_append: "load_attempts (t @ u) = load_attempts t @ load_attempts u"
  by (induction t rule: load_attempts.induct) simp_all

lemma init_when_initialized:
  "g_bitnet_initialized s \<Longrightarrow> ggml_bitnet_cuda_init pf env s = (g_bitnet_available s, s)"
  by (simp add: ggml_bitnet_cuda_init_def)

lemma init_sets_initialized: "g_bitnet_initialized (snd (ggml_bitnet_cuda_init pf env s))"
  by (simp add: ggml_bitnet_cuda_init_def emit_def Let_def)

lemma init_probe_runs:
  "probe_runs pf (trace (snd (ggml_bitnet_cuda_init pf env s))) =
     probe_runs pf (trace s) + (if g_bitnet_initialized s then 0 else 1)"
  by (simp add: ggml_bitnet_cuda_init_def emit_def Let_def probe_runs_def
      explicit_path_not_plain)

lemma init_result:
  "\<not> g_bitnet_initialized s \<Longrightarrow>
   fst (ggml_bitnet_cuda_init pf env s) =
     (case first_loadable pf env of
        None \<Rightarrow> False
      | Some p \<Rightarrow> get_proc_address env (load_library env p) kernel_symbol \<noteq> NULL)"
  by (simp add: ggml_bitnet_cuda_init_def emit_def Let_def first_loadable_def
      candidate_paths_def)

lemma init_records_result:
  "state_inv s \<Longrightarrow>
   g_bitnet_available (snd (ggml_bitnet_cuda_init pf env s)) =
     fst (ggml_bitnet_cuda_init pf env s)"
  by (auto simp add: ggml_bitnet_cuda_init_def emit_def Let_def state_inv_def)

lemma init_load_attempts:
  "\<not> g_bitnet_initialized s \<Longrightarrow>
   load_attempts (trace (snd (ggml_bitnet_cuda_init pf env s))) =
     load_attempts (trace s) @
       (if load_library env (BITNET_LIB_NAME pf) \<noteq> NULL then [BITNET_LIB_NAME pf]
        else [BITNET_LIB_NAME pf, explicit_path pf])"
  by (simp add: ggml_bitnet_cuda_init_def emit_def Let_def load_attempts_append)

lemma init_symbol_missing:
  assumes "\<not> g_bitnet_initialized s"
      and "first_loadable pf env = Some p"
      and "get_proc_address env (load_library env p) kernel_symbol = NULL"
  shows "ggml_bitnet_cuda_init pf env s =
           (False,
            s\<lparr>g_bitnet_lib := NULL, g_bitlinear_kernel := NULL,
              g_bitnet_initialized := True,
              trace := trace s @
                (if p = BITNET_LIB_NAME pf then [Load (BITNET_LIB_NAME pf)]
                 else [Load (BITNET_LIB_NAME pf), Load (explicit_path pf)]) @
                [Get_proc (load_library env p) kernel_symbol,
                 Print (Error_function_missing (BITNET_LIB_NAME pf)),
                 Close (load_library env p)]\<rparr>)"
  using assms
  by (auto simp add: ggml_bitnet_cuda_init_def emit_def Let_def first_loadable_def
      candidate_paths_def explicit_path_not_plain split: if_splits)

lemma free_effect:
  "state_inv s \<Longrightarrow>
   ggml_bitnet_cuda_free s =
     s\<lparr>g_bitnet_lib := NULL, g_bitlinear_kernel := NULL,
       g_bitnet_initialized := False, g_bitnet_available := False,
       trace := trace s @ (if g_bitnet_lib s \<noteq> NULL then [Close (g_bitnet_lib s)] else [])\<rparr>"
  by (cases s) (auto simp add: ggml_bitnet_cuda_free_def emit_def Let_def state_inv_def)

lemma free_twice: "ggml_bitnet_cuda_free (ggml_bitnet_cuda_free s) = ggml_bitnet_cuda_free s"
  by (cases s) (simp add: ggml_bitnet_cuda_free_def emit_def Let_def)

lemma free_probe_runs:
  "probe_runs pf (trace (ggml_bitnet_cuda_free s)) = probe_runs pf (trace s)"
  by (simp add: ggml_bitnet_cuda_free_def emit_def Let_def probe_runs_def)

subsection \<open>Loading and releasing the module\<close>

text \<open>
  C2. Called in a reachable state that is not yet initialized,
  \<open>ggml_bitnet_cuda_init\<close> returns true exactly when a module loads at the first
  loadable candidate (the plain name, else the one explicit path) and the symbol
  \<open>bitlinear_int8xint2\<close> resolves in it. The result is recorded in the availability
  flag, the state is marked initialized, and the load attempts are the plain name,
  followed by the explicit path only if the plain name failed.
\<close>

theorem init_true_iff_loaded_and_resolved:
  assumes "reachable pf s"
      and "\<not> g_bitnet_initialized s"
  shows "fst (ggml_bitnet_cuda_init pf env s) =
           (case first_loadable pf env of
              None \<Rightarrow> False
            | Some p \<Rightarrow> get_proc_address env (load_library env p) kernel_symbol \<noteq> NULL) \<and>
         g_bitnet_available (snd (ggml_bitnet_cuda_init pf env s)) =
           fst (ggml_bitnet_cuda_init pf env s) \<and>
         g_bitnet_initialized (snd (ggml_bitnet_cuda_init pf env s)) \<and>
         load_attempts (trace (snd (ggml_bitnet_cuda_init pf env s))) =
           load_attempts (trace s) @
             (if load_library env (BITNET_LIB_NAME pf) \<noteq> NULL then [BITNET_LIB_NAME pf]
              else [BITNET_LIB_NAME pf, explicit_path pf])"
proof -
  have inv: "state_inv s" using assms(1) by (rule reachable_state_inv)
  show ?thesis
    using init_result [OF assms(2), of pf env] init_records_result [OF inv, of pf env]
      init_sets_initialized [of pf env s] init_load_attempts [OF assms(2), of pf env]
    by blast
qed

theorem init_true_iff_loaded_and_resolved_witness:
  "reachable Posix (initial_state zero_mem) \<and>
   \<not> g_bitnet_initialized (initial_state zero_mem) \<and>
   fst (ggml_bitnet_cuda_init Posix stub_loader (initial_state zero_mem)) = True \<and>
   fst (ggml_bitnet_cuda_init Posix symbolless_loader (initial_state zero_mem)) = False \<and>
   fst (ggml_bitnet_cuda_init Posix absent_loader (initial_state zero_mem)) = False \<and>
   load_attempts (trace (snd (ggml_bitnet_cuda_init Posix absent_loader
       (initial_state zero_mem)))) =
     [''libbitnet.so'', ''./libs/linux/bitnet-kernel/libbitnet.so'']"
proof -
  have r: "reachable Posix (initial_state zero_mem)" by (rule reachable.start)
  have u: "\<not> g_bitnet_initialized (initial_state zero_mem)"
    by (simp add: initial_state_def)
  have a: "fst (ggml_bitnet_cuda_init Posix stub_loader (initial_state zero_mem)) = True"
    using init_true_iff_loaded_and_resolved [OF r u, of stub_loader]
    by (simp add: first_loadable_def candidate_paths_def stub_loader_def kernel_symbol_def)
  have b: "fst (ggml_bitnet_cuda_init Posix symbolless_loader (initial_state zero_mem)) = False"
    using init_true_iff_loaded_and_resolved [OF r u, of symbolless_loader]
    by (simp add: first_loadable_def candidate_paths_def symbolless_loader_def)
  have c: "fst (ggml_bitnet_cuda_init Posix absent_loader (initial_state zero_mem)) = False \<and>
      load_attempts (trace (snd (ggml_bitnet_cuda_init Posix absent_loader
          (initial_state zero_mem)))) =
        [''libbitnet.so'', ''./libs/linux/bitnet-kernel/libbitnet.so'']"
    using init_true_iff_loaded_and_resolved [OF r u, of absent_loader]
    by (simp add: first_loadable_def candidate_paths_def absent_loader_def initial_state_def)
  from r u a b c show ?thesis by blast
qed

text \<open>
  C6. When a module loads but the symbol does not resolve, \<open>ggml_bitnet_cuda_init\<close>
  (called in a reachable, not yet initialized state) closes the module right after the
  failed lookup, as its last effect, returns false, and leaves both the handle and the
  function pointer null: neither is bound without the other. The state is initialized
  and unavailable.
\<close>

theorem init_unloads_when_symbol_missing:
  assumes "reachable pf s"
      and "\<not> g_bitnet_initialized s"
      and "first_loadable pf env = Some p"
      and "get_proc_address env (load_library env p) kernel_symbol = NULL"
  shows "fst (ggml_bitnet_cuda_init pf env s) = False \<and>
         g_bitnet_lib (snd (ggml_bitnet_cuda_init pf env s)) = NULL \<and>
         g_bitlinear_kernel (snd (ggml_bitnet_cuda_init pf env s)) = NULL \<and>
         g_bitnet_initialized (snd (ggml_bitnet_cuda_init pf env s)) \<and>
         \<not> g_bitnet_available (snd (ggml_bitnet_cuda_init pf env s)) \<and>
         trace (snd (ggml_bitnet_cuda_init pf env s)) =
           trace s @
             (if p = BITNET_LIB_NAME pf then [Load (BITNET_LIB_NAME pf)]
              else [Load (BITNET_LIB_NAME pf), Load (explicit_path pf)]) @
             [Get_proc (load_library env p) kernel_symbol,
              Print (Error_function_missing (BITNET_LIB_NAME pf)),
              Close (load_library env p)]"
proof -
  have inv: "state_inv s" using assms(1) by (rule reachable_state_inv)
  have "\<not> g_bitnet_available s" using inv assms(2) by (auto simp add: state_inv_def)
  then show ?thesis
    by (simp add: init_symbol_missing [OF assms(2) assms(3) assms(4)])
qed

theorem init_unloads_when_symbol_missing_witness:
  "reachable Posix (initial_state zero_mem) \<and>
   \<not> g_bitnet_initialized (initial_state zero_mem) \<and>
   first_loadable Posix symbolless_loader = Some ''libbitnet.so'' \<and>
   get_proc_address symbolless_loader (load_library symbolless_loader ''libbitnet.so'')
     kernel_symbol = NULL \<and>
   g_bitnet_lib (snd (ggml_bitnet_cuda_init Posix symbolless_loader
     (initial_state zero_mem))) = NULL \<and>
   trace (snd (ggml_bitnet_cuda_init Posix symbolless_loader (initial_state zero_mem))) =
     [Load ''libbitnet.so'', Get_proc 7 ''bitlinear_int8xint2'',
      Print (Error_function_missing ''libbitnet.so''), Close 7]"
proof -
  have r: "reachable Posix (initial_state zero_mem)" by (rule reachable.start)
  have u: "\<not> g_bitnet_initialized (initial_state zero_mem)"
    by (simp add: initial_state_def)
  have f: "first_loadable Posix symbolless_loader = Some ''libbitnet.so''"
    by (simp add: first_loadable_def candidate_paths_def symbolless_loader_def)
  have g: "get_proc_address symbolless_loader
      (load_library symbolless_loader ''libbitnet.so'') kernel_symbol = NULL"
    by (simp add: symbolless_loader_def)
  have c: "g_bitnet_lib (snd (ggml_bitnet_cuda_init Posix symbolless_loader
        (initial_state zero_mem))) = NULL \<and>
      trace (snd (ggml_bitnet_cuda_init Posix symbolless_loader (initial_state zero_mem))) =
        [Load ''libbitnet.so'', Get_proc 7 ''bitlinear_int8xint2'',
         Print (Error_function_missing ''libbitnet.so''), Close 7]"
    using init_unloads_when_symbol_missing [OF r u f g]
    by (simp add: initial_state_def symbolless_loader_def kernel_symbol_def)
  from r u f g c show ?thesis by blast
qed

text \<open>
  C7. In every reachable state \<open>ggml_bitnet_cuda_free\<close> nulls the function pointer and
  the handle, closes the module exactly when one is loaded, and clears both flags; a
  second call changes nothing more (no second close); and the next
  \<open>ggml_bitnet_cuda_init\<close> runs the load logic again, with the result the loader then
  gives.
\<close>

theorem free_resets_the_module:
  assumes "reachable pf s"
  shows "ggml_bitnet_cuda_free s =
           s\<lparr>g_bitnet_lib := NULL, g_bitlinear_kernel := NULL,
             g_bitnet_initialized := False, g_bitnet_available := False,
             trace := trace s @
               (if g_bitnet_lib s \<noteq> NULL then [Close (g_bitnet_lib s)] else [])\<rparr> \<and>
         ggml_bitnet_cuda_free (ggml_bitnet_cuda_free s) = ggml_bitnet_cuda_free s \<and>
         probe_runs pf (trace (snd (ggml_bitnet_cuda_init pf env (ggml_bitnet_cuda_free s)))) =
           probe_runs pf (trace s) + 1 \<and>
         fst (ggml_bitnet_cuda_init pf env (ggml_bitnet_cuda_free s)) =
           (case first_loadable pf env of
              None \<Rightarrow> False
            | Some p \<Rightarrow> get_proc_address env (load_library env p) kernel_symbol \<noteq> NULL)"
proof -
  have inv: "state_inv s" using assms by (rule reachable_state_inv)
  have u: "\<not> g_bitnet_initialized (ggml_bitnet_cuda_free s)"
    by (simp add: ggml_bitnet_cuda_free_def Let_def)
  have "probe_runs pf (trace (snd (ggml_bitnet_cuda_init pf env (ggml_bitnet_cuda_free s)))) =
      probe_runs pf (trace s) + 1"
    using u by (simp add: init_probe_runs free_probe_runs)
  then show ?thesis
    using free_effect [OF inv] free_twice [of s] init_result [OF u, of pf env]
    by blast
qed

theorem free_resets_the_module_witness:
  "reachable Posix (snd (ggml_bitnet_cuda_init Posix stub_loader (initial_state zero_mem))) \<and>
   g_bitnet_lib (snd (ggml_bitnet_cuda_init Posix stub_loader (initial_state zero_mem))) = 7 \<and>
   trace (ggml_bitnet_cuda_free
     (snd (ggml_bitnet_cuda_init Posix stub_loader (initial_state zero_mem)))) =
     [Load ''libbitnet.so'', Get_proc 7 ''bitlinear_int8xint2'',
      Print (Info_loaded ''libbitnet.so''), Close 7] \<and>
   g_bitlinear_kernel (ggml_bitnet_cuda_free
     (snd (ggml_bitnet_cuda_init Posix stub_loader (initial_state zero_mem)))) = NULL"
proof -
  let ?s = "snd (ggml_bitnet_cuda_init Posix stub_loader (initial_state zero_mem))"
  have "exec Posix stub_loader Init (initial_state zero_mem) =
      Inr (Ret_bool (fst (ggml_bitnet_cuda_init Posix stub_loader (initial_state zero_mem))), ?s)"
    by (cases "ggml_bitnet_cuda_init Posix stub_loader (initial_state zero_mem)") simp
  then have r: "reachable Posix ?s"
    using reachable.call [OF reachable.start] by blast
  have e: "?s = \<lparr>g_bitnet_lib = 7, g_bitlinear_kernel = 9, g_bitnet_initialized = True,
        g_bitnet_available = True, mem = zero_mem,
        trace = [Load ''libbitnet.so'', Get_proc 7 ''bitlinear_int8xint2'',
                 Print (Info_loaded ''libbitnet.so'')]\<rparr>"
    by (simp add: ggml_bitnet_cuda_init_def initial_state_def stub_loader_def emit_def
        kernel_symbol_def Let_def)
  have c: "g_bitnet_lib ?s = 7 \<and>
      trace (ggml_bitnet_cuda_free ?s) =
        [Load ''libbitnet.so'', Get_proc 7 ''bitlinear_int8xint2'',
         Print (Info_loaded ''libbitnet.so''), Close 7] \<and>
      g_bitlinear_kernel (ggml_bitnet_cuda_free ?s) = NULL"
    using free_resets_the_module [OF r, of stub_loader] by (simp add: e)
  from r c show ?thesis by blast
qed

subsection \<open>The binding invariant\<close>

text \<open>
  C9. In every reachable state a non-null function pointer comes with a non-null module
  handle, a true availability flag comes with both non-null, and handle and pointer are
  null together or bound together. Every operation (init, free, is_available, compute,
  should_use), under any loader, returns and leaves a state of which the same holds.
\<close>

theorem binding_invariant_preserved:
  assumes "reachable pf s"
  shows "binding_inv s \<and>
         (g_bitnet_lib s = NULL \<longleftrightarrow> g_bitlinear_kernel s = NULL) \<and>
         (\<exists>r s'. exec pf env c s = Inr (r, s') \<and> reachable pf s' \<and> binding_inv s' \<and>
                 (g_bitnet_lib s' = NULL \<longleftrightarrow> g_bitlinear_kernel s' = NULL))"
proof -
  have inv: "state_inv s" using assms by (rule reachable_state_inv)
  obtain r s' where ex: "exec pf env c s = Inr (r, s')" and inv': "state_inv s'"
    using state_inv_exec [OF inv, of pf env c] by blast
  have "reachable pf s'" using assms ex by (rule reachable.call)
  then show ?thesis
    using inv inv' ex state_inv_binding [OF inv] state_inv_binding [OF inv']
    by (auto simp add: state_inv_def)
qed

theorem binding_invariant_preserved_witness:
  "reachable Posix (initial_state zero_mem) \<and>
   g_bitnet_lib (initial_state zero_mem) = NULL \<and>
   g_bitlinear_kernel (initial_state zero_mem) = NULL \<and>
   (\<exists>r s'. exec Posix stub_loader Init (initial_state zero_mem) = Inr (r, s') \<and>
           g_bitnet_available s' \<and> g_bitnet_lib s' = 7 \<and> g_bitlinear_kernel s' = 9)"
proof -
  have r: "reachable Posix (initial_state zero_mem)" by (rule reachable.start)
  have n: "g_bitnet_lib (initial_state zero_mem) = NULL \<and>
      g_bitlinear_kernel (initial_state zero_mem) = NULL"
    by (simp add: initial_state_def)
  have c: "\<exists>r s'. exec Posix stub_loader Init (initial_state zero_mem) = Inr (r, s') \<and>
      g_bitnet_available s' \<and> g_bitnet_lib s' = 7 \<and> g_bitlinear_kernel s' = 9"
    using binding_invariant_preserved [OF r, of stub_loader Init]
    by (auto simp add: ggml_bitnet_cuda_init_def initial_state_def stub_loader_def emit_def
        kernel_symbol_def Let_def)
  from r n c show ?thesis by blast
qed

subsection \<open>Sequences of calls\<close>

lemma is_available_unfold:
  "ggml_bitnet_cuda_is_available pf env s =
     (if g_bitnet_initialized s then (g_bitnet_available s, s)
      else (g_bitnet_available (snd (ggml_bitnet_cuda_init pf env s)),
            snd (ggml_bitnet_cuda_init pf env s)))"
  by (simp add: ggml_bitnet_cuda_is_available_def Let_def)

lemma is_available_sets_initialized:
  "g_bitnet_initialized (snd (ggml_bitnet_cuda_is_available pf env s))"
  by (simp add: is_available_unfold init_sets_initialized)

lemma is_available_probe_runs:
  "probe_runs pf (trace (snd (ggml_bitnet_cuda_is_available pf env s))) =
     probe_runs pf (trace s) + (if g_bitnet_initialized s then 0 else 1)"
  by (simp add: is_available_unfold init_probe_runs)

lemma is_available_keeps_flag:
  "g_bitnet_initialized s \<Longrightarrow>
   g_bitnet_available (snd (ggml_bitnet_cuda_is_available pf env s)) = g_bitnet_available s"
  by (simp add: is_available_unfold)

lemma is_available_absent:
  assumes "state_inv s" and "\<not> g_bitnet_available s" and "first_loadable pf env = None"
  shows "\<not> fst (ggml_bitnet_cuda_is_available pf env s)"
proof (cases "g_bitnet_initialized s")
  case True
  then show ?thesis using assms(2) by (simp add: is_available_unfold)
next
  case False
  then show ?thesis
    using init_result [OF False, of pf env] init_records_result [OF assms(1), of pf env]
      assms(3)
    by (simp add: is_available_unfold)
qed

text \<open>One call other than \<open>free\<close>: it returns, and it runs the load logic only if the
  state was not initialized.\<close>

lemma exec_memoized:
  assumes "state_inv s" and "c \<noteq> Free"
  shows "\<exists>r s1. exec pf env c s = Inr (r, s1) \<and> state_inv s1 \<and> g_bitnet_initialized s1 \<and>
           probe_runs pf (trace s1) =
             probe_runs pf (trace s) + (if g_bitnet_initialized s then 0 else 1) \<and>
           (g_bitnet_initialized s \<longrightarrow> g_bitnet_available s1 = g_bitnet_available s) \<and>
           (c = Init \<or> c = Is_available \<longrightarrow> r = Ret_bool (g_bitnet_available s1))"
proof (cases c)
  case Init
  then show ?thesis
    using state_inv_init [OF assms(1), of pf env] init_records_result [OF assms(1), of pf env]
      init_sets_initialized [of pf env s] init_probe_runs [of pf env s]
    by (cases "ggml_bitnet_cuda_init pf env s") (auto simp add: init_when_initialized)
next
  case Free
  then show ?thesis using assms(2) by simp
next
  case Is_available
  then show ?thesis
    using state_inv_is_available [OF assms(1), of pf env]
      is_available_sets_initialized [of pf env s] is_available_probe_runs [of pf env s]
      is_available_keeps_flag [of s pf env] is_available_result [of pf env s]
    by (cases "ggml_bitnet_cuda_is_available pf env s") auto
next
  case (Compute i w out sc ws M N K st)
  then show ?thesis
    using state_inv_is_available [OF assms(1), of pf env]
      is_available_sets_initialized [of pf env s] is_available_probe_runs [of pf env s]
      is_available_keeps_flag [of s pf env]
    by (auto simp add: compute_cases [OF assms(1)] Let_def emit_def state_inv_def
        probe_runs_def)
next
  case (Should_use t)
  then show ?thesis
    using state_inv_is_available [OF assms(1), of pf env]
      is_available_sets_initialized [of pf env s] is_available_probe_runs [of pf env s]
      is_available_keeps_flag [of s pf env]
    by (cases "ggml_bitnet_cuda_is_available pf env s")
       (auto simp add: ggml_should_use_bitnet_cuda_def)
qed

lemma run_memoized:
  assumes "state_inv s" and "\<forall>x \<in> set cs. snd x \<noteq> Free"
  shows "\<exists>rs s'. run pf cs s = Inr (rs, s') \<and>
           probe_runs pf (trace s') =
             probe_runs pf (trace s) + (if g_bitnet_initialized s \<or> cs = [] then 0 else 1) \<and>
           (g_bitnet_initialized s \<longrightarrow> g_bitnet_available s' = g_bitnet_available s) \<and>
           list_all2 (\<lambda>x r. snd x = Init \<or> snd x = Is_available \<longrightarrow>
                              r = Ret_bool (g_bitnet_available s')) cs rs"
  using assms
proof (induction cs arbitrary: s)
  case Nil
  then show ?case by simp
next
  case (Cons x cs)
  obtain env c where x: "x = (env, c)" by (cases x)
  have "c \<noteq> Free" using Cons.prems(2) x by simp
  from exec_memoized [OF Cons.prems(1) this, of pf env]
  obtain r s1 where ex: "exec pf env c s = Inr (r, s1)"
    and inv1: "state_inv s1" and init1: "g_bitnet_initialized s1"
    and runs1: "probe_runs pf (trace s1) =
                  probe_runs pf (trace s) + (if g_bitnet_initialized s then 0 else 1)"
    and keep1: "g_bitnet_initialized s \<longrightarrow> g_bitnet_available s1 = g_bitnet_available s"
    and res1: "c = Init \<or> c = Is_available \<longrightarrow> r = Ret_bool (g_bitnet_available s1)"
    by blast
  have "\<forall>x \<in> set cs. snd x \<noteq> Free" using Cons.prems(2) by simp
  from Cons.IH [OF inv1 this]
  obtain rs s' where rn: "run pf cs s1 = Inr (rs, s')"
    and runs': "probe_runs pf (trace s') = probe_runs pf (trace s1)"
    and keep': "g_bitnet_available s' = g_bitnet_available s1"
    and res': "list_all2 (\<lambda>x r. snd x = Init \<or> snd x = Is_available \<longrightarrow>
                              r = Ret_bool (g_bitnet_available s')) cs rs"
    using init1 by auto
  have "run pf (x # cs) s = Inr (r # rs, s')" using x ex rn by simp
  then show ?case using x runs1 runs' keep1 keep' res1 res' by auto
qed

text \<open>One call while no module is to be found and none is bound: nothing is written,
  no kernel is called, and every answer is false.\<close>

lemma exec_absent:
  assumes "state_inv s" and "\<not> g_bitnet_available s" and "first_loadable pf env = None"
  shows "\<exists>r s1. exec pf env c s = Inr (r, s1) \<and> state_inv s1 \<and> \<not> g_bitnet_available s1 \<and>
           mem s1 = mem s \<and> kernel_calls (trace s1) = kernel_calls (trace s) \<and>
           r = (if c = Free then Ret_void else Ret_bool False)"
proof -
  have na: "\<not> fst (ggml_bitnet_cuda_is_available pf env s)"
    using assms by (rule is_available_absent)
  then have na': "\<not> g_bitnet_available (snd (ggml_bitnet_cuda_is_available pf env s))"
    using is_available_result [of pf env s] by simp
  show ?thesis
  proof (cases c)
    case Init
    show ?thesis
    proof (cases "g_bitnet_initialized s")
      case True
      then show ?thesis using Init assms(1) assms(2) by (simp add: init_when_initialized)
    next
      case False
      then show ?thesis
        using Init state_inv_init [OF assms(1), of pf env] init_result [OF False, of pf env]
          init_records_result [OF assms(1), of pf env] assms(3)
          init_mem [of pf env s] init_kernel_calls [of pf env s]
        by (cases "ggml_bitnet_cuda_init pf env s") auto
    qed
  next
    case Free
    then show ?thesis
      using state_inv_free [OF assms(1)]
      by (auto simp add: ggml_bitnet_cuda_free_def emit_def Let_def kernel_calls_def)
  next
    case Is_available
    then show ?thesis
      using na na' state_inv_is_available [OF assms(1), of pf env]
        is_available_mem [of pf env s] is_available_kernel_calls [of pf env s]
      by (cases "ggml_bitnet_cuda_is_available pf env s") auto
  next
    case (Compute i w out sc ws M N K st)
    then show ?thesis
      using na na' state_inv_is_available [OF assms(1), of pf env]
        is_available_mem [of pf env s] is_available_kernel_calls [of pf env s]
      by (simp add: compute_cases [OF assms(1)] Let_def)
  next
    case (Should_use t)
    then show ?thesis
      using na na' state_inv_is_available [OF assms(1), of pf env]
        is_available_mem [of pf env s] is_available_kernel_calls [of pf env s]
      by (cases "ggml_bitnet_cuda_is_available pf env s")
         (auto simp add: ggml_should_use_bitnet_cuda_def)
  qed
qed

lemma run_absent:
  assumes "state_inv s" and "\<not> g_bitnet_available s"
      and "\<forall>x \<in> set cs. first_loadable pf (fst x) = None"
  shows "\<exists>rs s'. run pf cs s = Inr (rs, s') \<and> mem s' = mem s \<and>
           kernel_calls (trace s') = kernel_calls (trace s) \<and>
           list_all2 (\<lambda>x r. r = (if snd x = Free then Ret_void else Ret_bool False)) cs rs"
  using assms
proof (induction cs arbitrary: s)
  case Nil
  then show ?case by simp
next
  case (Cons x cs)
  obtain env c where x: "x = (env, c)" by (cases x)
  have "first_loadable pf env = None" using Cons.prems(3) x by simp
  from exec_absent [OF Cons.prems(1) Cons.prems(2) this, of c]
  obtain r s1 where ex: "exec pf env c s = Inr (r, s1)"
    and inv1: "state_inv s1" and na1: "\<not> g_bitnet_available s1"
    and mem1: "mem s1 = mem s"
    and calls1: "kernel_calls (trace s1) = kernel_calls (trace s)"
    and res1: "r = (if c = Free then Ret_void else Ret_bool False)"
    by blast
  have "\<forall>x \<in> set cs. first_loadable pf (fst x) = None" using Cons.prems(3) by simp
  from Cons.IH [OF inv1 na1 this]
  obtain rs s' where rn: "run pf cs s1 = Inr (rs, s')"
    and mem': "mem s' = mem s1"
    and calls': "kernel_calls (trace s') = kernel_calls (trace s1)"
    and res': "list_all2 (\<lambda>x r. r = (if snd x = Free then Ret_void else Ret_bool False)) cs rs"
    by blast
  have "run pf (x # cs) s = Inr (r # rs, s')" using x ex rn by simp
  then show ?case using x mem1 mem' calls1 calls' res1 res' by simp
qed

text \<open>
  C3. From a reachable state, any sequence of calls without \<open>ggml_bitnet_cuda_free\<close>,
  each under whatever loader it meets, returns, and runs the load logic once if the
  state was uninitialized and the sequence is not empty, and not at all otherwise.
  Every \<open>ggml_bitnet_cuda_init\<close> and \<open>ggml_bitnet_cuda_is_available\<close> in the sequence
  returns one and the same value, the recorded flag, which is the flag of the starting
  state if that was initialized. In an initialized state \<open>ggml_bitnet_cuda_init\<close>
  returns the recorded flag and changes nothing.
\<close>

theorem initialization_is_memoized:
  assumes "reachable pf s"
      and "\<forall>x \<in> set cs. snd x \<noteq> Free"
  shows "(\<exists>rs s'. run pf cs s = Inr (rs, s') \<and>
            probe_runs pf (trace s') =
              probe_runs pf (trace s) + (if g_bitnet_initialized s \<or> cs = [] then 0 else 1) \<and>
            (g_bitnet_initialized s \<longrightarrow> g_bitnet_available s' = g_bitnet_available s) \<and>
            list_all2 (\<lambda>x r. snd x = Init \<or> snd x = Is_available \<longrightarrow>
                               r = Ret_bool (g_bitnet_available s')) cs rs) \<and>
         (g_bitnet_initialized s \<longrightarrow>
            ggml_bitnet_cuda_init pf env s = (g_bitnet_available s, s))"
proof -
  have inv: "state_inv s" using assms(1) by (rule reachable_state_inv)
  show ?thesis
    using run_memoized [OF inv assms(2), of pf] init_when_initialized [of s pf env]
    by blast
qed

theorem initialization_is_memoized_witness:
  "reachable Posix (initial_state zero_mem) \<and>
   (\<exists>s'. run Posix [(absent_loader, Is_available), (stub_loader, Init),
                     (stub_loader, Is_available)] (initial_state zero_mem) =
            Inr ([Ret_bool False, Ret_bool False, Ret_bool False], s') \<and>
          probe_runs Posix (trace s') = 1)"
proof -
  let ?cs = "[(absent_loader, Is_available), (stub_loader, Init), (stub_loader, Is_available)]"
  have r: "reachable Posix (initial_state zero_mem)" by (rule reachable.start)
  have n: "\<forall>x \<in> set ?cs. snd x \<noteq> Free" by simp
  have c: "\<exists>s'. run Posix ?cs (initial_state zero_mem) =
            Inr ([Ret_bool False, Ret_bool False, Ret_bool False], s') \<and>
          probe_runs Posix (trace s') = 1"
    using initialization_is_memoized [OF r n]
    by (simp add: ggml_bitnet_cuda_is_available_def ggml_bitnet_cuda_init_def
        initial_state_def absent_loader_def emit_def Let_def probe_runs_def)
  from r c show ?thesis by blast
qed

text \<open>
  C4. Take a reachable state in which no kernel is bound (as at process start and after
  \<open>ggml_bitnet_cuda_free\<close>) and a loader under which no candidate path yields a module.
  Then \<open>ggml_bitnet_cuda_is_available\<close> returns false, and
  \<open>ggml_bitnet_cuda_compute\<close> returns false, leaves all of memory as it was and calls
  no kernel. The same holds along any sequence of calls while no module is to be
  found: every call returns false (\<open>free\<close> returns nothing), memory is unchanged and
  no kernel is called.
\<close>

theorem absent_module_refuses_without_writing:
  assumes "reachable pf s"
      and "\<not> g_bitnet_available s"
      and "first_loadable pf env = None"
      and "\<forall>x \<in> set cs. first_loadable pf (fst x) = None"
  shows "fst (ggml_bitnet_cuda_is_available pf env s) = False \<and>
         (\<exists>s'. ggml_bitnet_cuda_compute pf env i w out sc ws M N K st s = Inr (False, s') \<and>
               mem s' = mem s \<and> kernel_calls (trace s') = kernel_calls (trace s)) \<and>
         (\<exists>rs s'. run pf cs s = Inr (rs, s') \<and> mem s' = mem s \<and>
               kernel_calls (trace s') = kernel_calls (trace s) \<and>
               list_all2 (\<lambda>x r. r = (if snd x = Free then Ret_void else Ret_bool False)) cs rs)"
proof -
  have inv: "state_inv s" using assms(1) by (rule reachable_state_inv)
  have na: "\<not> fst (ggml_bitnet_cuda_is_available pf env s)"
    using inv assms(2) assms(3) by (rule is_available_absent)
  have cmp: "\<exists>s'. ggml_bitnet_cuda_compute pf env i w out sc ws M N K st s = Inr (False, s') \<and>
               mem s' = mem s \<and> kernel_calls (trace s') = kernel_calls (trace s)"
    using na by (simp add: compute_cases [OF inv] Let_def is_available_mem
        is_available_kernel_calls)
  from na cmp run_absent [OF inv assms(2) assms(4)] show ?thesis by blast
qed

theorem absent_module_refuses_without_writing_witness:
  "reachable Posix (initial_state zero_mem) \<and>
   \<not> g_bitnet_available (initial_state zero_mem) \<and>
   first_loadable Posix absent_loader = None \<and>
   fst (ggml_bitnet_cuda_is_available Posix absent_loader (initial_state zero_mem)) = False \<and>
   (\<exists>s'. ggml_bitnet_cuda_compute Posix absent_loader 100 200 300 400 500 2 4 8 0
            (initial_state zero_mem) = Inr (False, s') \<and> mem s' = zero_mem) \<and>
   (\<exists>s'. run Posix [(absent_loader, Compute 100 200 300 400 500 2 4 8 0),
                     (absent_loader, Is_available)] (initial_state zero_mem) =
            Inr ([Ret_bool False, Ret_bool False], s') \<and> mem s' = zero_mem)"
proof -
  let ?cs = "[(absent_loader, Compute 100 200 300 400 500 2 4 8 0),
              (absent_loader, Is_available)]"
  have r: "reachable Posix (initial_state zero_mem)" by (rule reachable.start)
  have a: "\<not> g_bitnet_available (initial_state zero_mem)"
    by (simp add: initial_state_def)
  have f: "first_loadable Posix absent_loader = None"
    by (simp add: first_loadable_def candidate_paths_def absent_loader_def)
  have g: "\<forall>x \<in> set ?cs. first_loadable Posix (fst x) = None"
    using f by simp
  have m: "mem (initial_state zero_mem) = zero_mem"
    by (simp add: initial_state_def)
  have c: "fst (ggml_bitnet_cuda_is_available Posix absent_loader (initial_state zero_mem)) =
        False \<and>
      (\<exists>s'. ggml_bitnet_cuda_compute Posix absent_loader 100 200 300 400 500 2 4 8 0
            (initial_state zero_mem) = Inr (False, s') \<and> mem s' = zero_mem) \<and>
      (\<exists>s'. run Posix ?cs (initial_state zero_mem) =
            Inr ([Ret_bool False, Ret_bool False], s') \<and> mem s' = zero_mem)"
    using absent_module_refuses_without_writing
            [OF r a f g, of 100 200 300 400 500 2 4 8 0]
    by (auto simp add: m list_all2_Cons1)
  from r a f c show ?thesis by blast
qed

end
